theory Spec2Isabelle
  imports Complex_Main "HOL-Library.Signed_Division"
begin

section \<open>The Mandelbrot renderer of \<open>cpp_guide_9fb8d0.cpp\<close>\<close>

text \<open>
  The program has one function, \<open>mandelbrot\<close> (lines 30 to 41), and a pixel loop in
  \<open>main\<close> (lines 52 to 89) whose body maps a pixel to a point of the complex plane
  (lines 57 to 64), calls \<open>mandelbrot\<close> and chooses a colour (lines 72 to 84).
  The three steps are embedded as \<open>mapPixelToPoint\<close>, \<open>mandelbrot\<close> and
  \<open>colorize\<close>. The source fixes the viewport, the grid and the iteration budget as
  global constants; the embedding takes them as arguments and gives the source's own
  values as constants of their own. None of the three steps throws, asserts or
  returns early, so none of them has an error result.
\<close>

subsection \<open>The constants of the source (lines 13 to 25)\<close>

definition WIDTH :: int where
  "WIDTH = 800"

definition HEIGHT :: int where
  "HEIGHT = 800"

definition RE_START :: real where
  "RE_START = - 2"

definition RE_END :: real where
  "RE_END = 1"

definition IM_START :: real where
  "IM_START = - 3 / 2"

definition IM_END :: real where
  "IM_END = 3 / 2"

definition MAX_ITERATIONS :: int where
  "MAX_ITERATIONS = 100"

subsection \<open>Machine integers\<close>

text \<open>
  \<open>int\<close> of the source is a 32-bit two's complement integer, modelled as a HOL
  \<open>int\<close> with the wrap-around written out. (Signed overflow is undefined in C++; the
  model takes the wrap-around of the hardware. The theorems below that state channel
  values say where they need the product to fit.) \<open>%\<close> of C++ truncates towards zero:
  it is \<open>smod\<close>. \<open>sf::Color\<close> stores each channel in a \<open>Uint8\<close>, so its constructor
  narrows an \<open>int\<close> argument modulo 256. The counter of \<open>mandelbrot\<close> is only
  incremented while it is below the budget, so it cannot overflow.
\<close>

definition int32_wrap :: "int \<Rightarrow> int" where
  "int32_wrap v = (v + 2 ^ 31) mod 2 ^ 32 - 2 ^ 31"

definition uint8_of_int :: "int \<Rightarrow> int" where
  "uint8_of_int v = v mod 256"

subsection \<open>Floating-point arithmetic as a parameter\<close>

text \<open>
  The source computes with \<open>double\<close> and \<open>std::complex<double>\<close>, whose operations
  belong to the platform and the C++ library, not to the program. The embedding takes
  them as a parameter: a record of the operations the program uses, over a type
  \<open>'d\<close> of \<open>double\<close> values and a type \<open>'z\<close> of \<open>std::complex<double>\<close> values.
  What is proved for every such record holds for the program whatever the rounding.

  \<^item> \<open>d_of_int\<close>: the conversion of an \<open>int\<close> to \<open>double\<close> (\<open>(double)x\<close>, the
    promotion of \<open>WIDTH\<close> in \<open>(double)x / WIDTH\<close>, the literal \<open>2.0\<close>);
  \<^item> \<open>d_add\<close>, \<open>d_sub\<close>, \<open>d_mul\<close>, \<open>d_div\<close>, \<open>d_less\<close>: \<open>+\<close>, \<open>-\<close>, \<open>*\<close>,
    \<open>/\<close> and \<open><\<close> on \<open>double\<close>;
  \<^item> \<open>z_make\<close>: the constructor \<open>std::complex<double>(re, im)\<close>;
  \<^item> \<open>z_add\<close>, \<open>z_mul\<close>, \<open>z_abs\<close>: \<open>+\<close>, \<open>*\<close> and \<open>std::abs\<close> on
    \<open>std::complex<double>\<close>.
\<close>

record ('d, 'z) arith =
  d_of_int :: "int \<Rightarrow> 'd"
  d_add :: "'d \<Rightarrow> 'd \<Rightarrow> 'd"
  d_sub :: "'d \<Rightarrow> 'd \<Rightarrow> 'd"
  d_mul :: "'d \<Rightarrow> 'd \<Rightarrow> 'd"
  d_div :: "'d \<Rightarrow> 'd \<Rightarrow> 'd"
  d_less :: "'d \<Rightarrow> 'd \<Rightarrow> bool"
  z_make :: "'d \<Rightarrow> 'd \<Rightarrow> 'z"
  z_add :: "'z \<Rightarrow> 'z \<Rightarrow> 'z"
  z_mul :: "'z \<Rightarrow> 'z \<Rightarrow> 'z"
  z_abs :: "'z \<Rightarrow> 'd"

text \<open>
  Exact arithmetic: \<open>double\<close> as \<open>real\<close> and \<open>std::complex<double>\<close> as
  \<open>complex\<close>, without rounding, infinities or NaN. It is an idealisation and not the
  arithmetic of the program. It is used in two ways only. The two statements about a
  magnitude (a point with \<open>|c| > 2\<close>, and the origin) are made in it, each next to a
  lemma that gives the same result for every arithmetic. And it is the concrete
  arithmetic of the witnesses and counterexamples, at inputs on which binary64
  arithmetic computes the same values without rounding and decides the loop test the
  same way. Division by zero is 0 in HOL and not so in the program; nothing below
  divides by zero in it.
\<close>

definition exact_arith :: "(real, complex) arith" where
  "exact_arith =
     \<lparr>d_of_int = of_int, d_add = (+), d_sub = (-), d_mul = (*), d_div = (/),
      d_less = (<), z_make = Complex, z_add = (+), z_mul = (*), z_abs = cmod\<rparr>"

subsection \<open>\<open>mandelbrot\<close> (lines 30 to 41)\<close>

text \<open>
  \<^verbatim>\<open>
  int mandelbrot(std::complex<double> c) {
      std::complex<double> z = 0;
      int iterations = 0;
      while (std::abs(z) < 2.0 && iterations < MAX_ITERATIONS) {
          z = z * z + c;
          iterations++;
      }
      return iterations;
  }
  \<close>
  The state of the loop is the pair of its two local variables. \<open>z = 0\<close> converts
  the \<open>int\<close> 0 to a complex number of real part 0 and imaginary part 0.
\<close>

record 'z loop_state =
  z :: 'z
  iterations :: int

definition z_zero :: "('d, 'z) arith \<Rightarrow> 'z" where
  "z_zero ar = z_make ar (d_of_int ar 0) (d_of_int ar 0)"

definition initial_state :: "('d, 'z) arith \<Rightarrow> 'z loop_state" where
  "initial_state ar = \<lparr>z = z_zero ar, iterations = 0\<rparr>"

definition abs_below_two :: "('d, 'z) arith \<Rightarrow> 'z \<Rightarrow> bool" where
  "abs_below_two ar w = d_less ar (z_abs ar w) (d_of_int ar 2)"

definition loop_cond :: "('d, 'z) arith \<Rightarrow> int \<Rightarrow> 'z loop_state \<Rightarrow> bool" where
  "loop_cond ar maxIterations s =
     (abs_below_two ar (z s) \<and> iterations s < maxIterations)"

definition loop_body :: "('d, 'z) arith \<Rightarrow> 'z \<Rightarrow> 'z loop_state \<Rightarrow> 'z loop_state" where
  "loop_body ar c s =
     \<lparr>z = z_add ar (z_mul ar (z s) (z s)) c, iterations = iterations s + 1\<rparr>"

function mandelbrot_loop ::
  "('d, 'z) arith \<Rightarrow> int \<Rightarrow> 'z \<Rightarrow> 'z loop_state \<Rightarrow> 'z loop_state" where
  "mandelbrot_loop ar maxIterations c s =
     (if loop_cond ar maxIterations s
      then mandelbrot_loop ar maxIterations c (loop_body ar c s)
      else s)"
  by pat_completeness auto
termination
  by (relation "measure (\<lambda>(ar, maxIterations, c, s). nat (maxIterations - iterations s))")
    (auto simp: loop_cond_def loop_body_def)

declare mandelbrot_loop.simps [simp del]

definition mandelbrot :: "('d, 'z) arith \<Rightarrow> int \<Rightarrow> 'z \<Rightarrow> int" where
  "mandelbrot ar maxIterations c =
     iterations (mandelbrot_loop ar maxIterations c (initial_state ar))"

text \<open>
  The state after \<open>k\<close> passes of the loop body from the initial state, whether or not
  the loop makes that many: its \<open>z\<close> is the \<open>k\<close>-th point of the orbit of 0 under
  \<open>z \<mapsto> z * z + c\<close>.
\<close>

definition after_passes :: "('d, 'z) arith \<Rightarrow> 'z \<Rightarrow> nat \<Rightarrow> 'z loop_state" where
  "after_passes ar c k = (loop_body ar c ^^ k) (initial_state ar)"

subsection \<open>The pixel mapping (lines 57 to 64)\<close>

text \<open>
  \<^verbatim>\<open>
  double re = RE_START + (double)x / WIDTH * (RE_END - RE_START);
  double im = IM_START + (double)y / HEIGHT * (IM_END - IM_START);
  std::complex<double> c(re, im);
  \<close>
  The six constants are the fields of the viewport. \<open>(double)x / WIDTH * d\<close> is
  \<open>((double)x / WIDTH) * d\<close>, a division of two \<open>double\<close> values.
\<close>

record 'd viewport =
  reStart :: 'd
  reEnd :: 'd
  imStart :: 'd
  imEnd :: 'd
  width :: int
  height :: int

definition mapPixelToPoint :: "('d, 'z) arith \<Rightarrow> int \<Rightarrow> int \<Rightarrow> 'd viewport \<Rightarrow> 'z" where
  "mapPixelToPoint ar x y vp =
     (let re = d_add ar (reStart vp)
                 (d_mul ar (d_div ar (d_of_int ar x) (d_of_int ar (width vp)))
                    (d_sub ar (reEnd vp) (reStart vp)));
          im = d_add ar (imStart vp)
                 (d_mul ar (d_div ar (d_of_int ar y) (d_of_int ar (height vp)))
                    (d_sub ar (imEnd vp) (imStart vp)))
      in z_make ar re im)"

definition main_viewport :: "real viewport" where
  "main_viewport =
     \<lparr>reStart = RE_START, reEnd = RE_END, imStart = IM_START, imEnd = IM_END,
      width = WIDTH, height = HEIGHT\<rparr>"

subsection \<open>Colours (lines 72 to 84)\<close>

text \<open>
  \<open>sf::Color\<close> of the SFML library, with its three colour channels. Its fourth
  channel, alpha, is the library's default 255 on both paths of the source and is left
  out.
\<close>

record Color =
  channel_r :: int
  channel_g :: int
  channel_b :: int

definition Color_rgb :: "int \<Rightarrow> int \<Rightarrow> int \<Rightarrow> Color" where
  "Color_rgb red green blue =
     \<lparr>channel_r = uint8_of_int red, channel_g = uint8_of_int green,
      channel_b = uint8_of_int blue\<rparr>"

definition Black :: Color where
  "Black = Color_rgb 0 0 0"

text \<open>
  Lines 72 to 84, with \<open>MAX_ITERATIONS\<close> as the second argument:
  \<^verbatim>\<open>
  if (iterations == MAX_ITERATIONS) { color = sf::Color::Black; }
  else { int r = (iterations * 5) % 255;
         int g = (iterations * 10) % 255;
         int b = (iterations * 15) % 255;
         color = sf::Color(r, g, b); }
  \<close>
\<close>

definition colorize :: "int \<Rightarrow> int \<Rightarrow> Color" where
  "colorize iterationResult maxIterations =
     (if iterationResult = maxIterations then Black
      else
        (let r = int32_wrap (iterationResult * 5) smod 255;
             g = int32_wrap (iterationResult * 10) smod 255;
             b = int32_wrap (iterationResult * 15) smod 255
         in Color_rgb r g b))"

section \<open>Properties of \<open>colorize\<close>\<close>

lemma smod_nonneg: "0 \<le> k \<Longrightarrow> 0 < l \<Longrightarrow> k smod l = k mod (l::int)"
  by (cases "k = 0") (simp_all add: signed_modulo_int_def)

lemma channel_value:
  assumes "0 \<le> i" and "0 < m" and "i * m < 2 ^ 31"
  shows "uint8_of_int (int32_wrap (i * m) smod 255) = (i * m) mod 255"
proof -
  have nonneg: "0 \<le> i * m"
    using assms by simp
  then have "int32_wrap (i * m) = i * m"
    using assms(3) by (simp add: int32_wrap_def)
  then have "int32_wrap (i * m) smod 255 = (i * m) mod 255"
    using nonneg by (simp add: smod_nonneg)
  moreover have "0 \<le> (i * m) mod 255" and "(i * m) mod 255 < 256"
    using pos_mod_bound [of 255 "i * m"] by simp_all
  ultimately show ?thesis
    by (simp add: uint8_of_int_def)
qed

lemma uint8_of_int_range: "0 \<le> uint8_of_int v \<and> uint8_of_int v \<le> 255"
  using pos_mod_bound [of 256 v] by (simp add: uint8_of_int_def)

text \<open>
  Claim C1, as the code has it: for every iteration count \<open>0 \<le> iterationResult < maxIterations\<close>
  whose largest product \<open>iterationResult * 15\<close> fits an \<open>int\<close>, \<open>colorize\<close> returns the
  channels \<open>(iterationResult * 5) mod 255\<close>, \<open>(iterationResult * 10) mod 255\<close> and
  \<open>(iterationResult * 15) mod 255\<close>: the modulus of the code is 255, not 256.
\<close>

theorem colorize_gradient:
  assumes "0 \<le> iterationResult" and "iterationResult < maxIterations"
    and "iterationResult * 15 < 2 ^ 31"
  shows "colorize iterationResult maxIterations =
           \<lparr>channel_r = (iterationResult * 5) mod 255,
            channel_g = (iterationResult * 10) mod 255,
            channel_b = (iterationResult * 15) mod 255\<rparr>"
proof -
  have "iterationResult * 5 < 2 ^ 31" and "iterationResult * 10 < 2 ^ 31"
    using assms(1,3) by simp_all
  then show ?thesis
    using assms by (simp add: colorize_def Color_rgb_def channel_value)
qed

theorem colorize_gradient_witness:
  "(0::int) \<le> 7 \<and> (7::int) < MAX_ITERATIONS \<and> (7::int) * 15 < 2 ^ 31
   \<and> colorize 7 MAX_ITERATIONS = \<lparr>channel_r = 35, channel_g = 70, channel_b = 105\<rparr>"
  using colorize_gradient [of 7 MAX_ITERATIONS] by (simp add: MAX_ITERATIONS_def)

text \<open>
  Claim C1, as the specification words it (modulus 256), fails on the code: at
  51 iterations of 100 the red channel is \<open>255 mod 255 = 0\<close>, while
  \<open>(51 * 5) mod 256 = 255\<close>.
\<close>

theorem colorize_mod_256_counterexample:
  "(51::int) < 100 \<and> channel_r (colorize 51 100) = 0 \<and> (51 * 5) mod 256 = (255::int)
   \<and> channel_r (colorize 51 100) \<noteq> (51 * 5) mod 256"
  by (simp add: colorize_def Color_rgb_def uint8_of_int_def int32_wrap_def
      signed_modulo_int_def)

text \<open>
  Claim C7: for every value of \<open>maxIterations\<close>, \<open>colorize maxIterations maxIterations\<close>
  is the in-set colour, black \<open>(0, 0, 0)\<close>.
\<close>

theorem colorize_in_set_black:
  "colorize maxIterations maxIterations = Black
   \<and> Black = \<lparr>channel_r = 0, channel_g = 0, channel_b = 0\<rparr>"
  by (simp add: colorize_def Black_def Color_rgb_def uint8_of_int_def)

text \<open>
  Claim C8: for every iteration count \<open>0 \<le> iterationResult \<le> maxIterations\<close>, each of
  the three channels that \<open>colorize\<close> returns lies in \<open>[0, 255]\<close>.
\<close>

theorem colorize_channels_in_range:
  assumes "0 \<le> iterationResult" and "iterationResult \<le> maxIterations"
  shows "0 \<le> channel_r (colorize iterationResult maxIterations)
       \<and> channel_r (colorize iterationResult maxIterations) \<le> 255
       \<and> 0 \<le> channel_g (colorize iterationResult maxIterations)
       \<and> channel_g (colorize iterationResult maxIterations) \<le> 255
       \<and> 0 \<le> channel_b (colorize iterationResult maxIterations)
       \<and> channel_b (colorize iterationResult maxIterations) \<le> 255"
  using uint8_of_int_range
  by (simp add: colorize_def Black_def Color_rgb_def Let_def)

theorem colorize_channels_in_range_witness:
  "(0::int) \<le> 99 \<and> (99::int) \<le> MAX_ITERATIONS
   \<and> colorize 99 MAX_ITERATIONS = \<lparr>channel_r = 240, channel_g = 225, channel_b = 210\<rparr>
   \<and> 0 \<le> channel_r (colorize 99 MAX_ITERATIONS)
   \<and> channel_r (colorize 99 MAX_ITERATIONS) \<le> 255
   \<and> 0 \<le> channel_g (colorize 99 MAX_ITERATIONS)
   \<and> channel_g (colorize 99 MAX_ITERATIONS) \<le> 255
   \<and> 0 \<le> channel_b (colorize 99 MAX_ITERATIONS)
   \<and> channel_b (colorize 99 MAX_ITERATIONS) \<le> 255"
  using colorize_channels_in_range [of 99 MAX_ITERATIONS]
  by (simp add: MAX_ITERATIONS_def colorize_def Color_rgb_def uint8_of_int_def
      int32_wrap_def signed_modulo_int_def)

text \<open>
  Claim C9: an escaped point can get the in-set colour. With \<open>maxIterations = 100\<close>,
  the iteration count 51 is below the budget and \<open>colorize\<close> returns \<open>(0, 0, 0)\<close> for
  it, the colour it returns for the count 100.
\<close>

theorem colorize_escaped_black:
  "(51::int) < MAX_ITERATIONS
   \<and> colorize 51 MAX_ITERATIONS = \<lparr>channel_r = 0, channel_g = 0, channel_b = 0\<rparr>
   \<and> colorize 51 MAX_ITERATIONS = colorize MAX_ITERATIONS MAX_ITERATIONS
   \<and> (51 * 5) mod 255 = (0::int) \<and> (51 * 10) mod 255 = (0::int)
   \<and> (51 * 15) mod 255 = (0::int)"
  by (simp add: MAX_ITERATIONS_def colorize_def Black_def Color_rgb_def uint8_of_int_def
      int32_wrap_def signed_modulo_int_def)

section \<open>Properties of \<open>mandelbrot\<close>\<close>

subsection \<open>The loop as a number of passes\<close>

lemma iterations_funpow:
  "iterations ((loop_body ar c ^^ k) s) = iterations s + int k"
  by (induction k) (simp_all add: loop_body_def)

lemma iterations_after_passes: "iterations (after_passes ar c k) = int k"
  by (simp add: after_passes_def iterations_funpow initial_state_def)

lemma loop_run:
  "\<exists>k. int k \<le> max 0 (maxIterations - iterations s)
     \<and> mandelbrot_loop ar maxIterations c s = (loop_body ar c ^^ k) s
     \<and> \<not> loop_cond ar maxIterations ((loop_body ar c ^^ k) s)
     \<and> (\<forall>j<k. loop_cond ar maxIterations ((loop_body ar c ^^ j) s))"
proof (induction ar maxIterations c s rule: mandelbrot_loop.induct)
  case (1 ar maxIterations c s)
  show ?case
  proof (cases "loop_cond ar maxIterations s")
    case False
    then have "mandelbrot_loop ar maxIterations c s = s"
      by (simp add: mandelbrot_loop.simps)
    with False show ?thesis
      by (intro exI [of _ 0]) simp
  next
    case True
    let ?s' = "loop_body ar c s"
    from "1.IH" [OF True] obtain k where
      bound: "int k \<le> max 0 (maxIterations - iterations ?s')"
      and run: "mandelbrot_loop ar maxIterations c ?s' = (loop_body ar c ^^ k) ?s'"
      and stop: "\<not> loop_cond ar maxIterations ((loop_body ar c ^^ k) ?s')"
      and before: "\<forall>j<k. loop_cond ar maxIterations ((loop_body ar c ^^ j) ?s')"
      by blast
    have less: "iterations s < maxIterations"
      using True by (simp add: loop_cond_def)
    have "int (Suc k) \<le> max 0 (maxIterations - iterations s)"
      using bound less by (simp add: loop_body_def)
    moreover have "mandelbrot_loop ar maxIterations c s = (loop_body ar c ^^ Suc k) s"
      using True run
      by (simp add: mandelbrot_loop.simps [of ar maxIterations c s] funpow_swap1)
    moreover have "\<not> loop_cond ar maxIterations ((loop_body ar c ^^ Suc k) s)"
      using stop by (simp add: funpow_swap1)
    moreover have "\<forall>j<Suc k. loop_cond ar maxIterations ((loop_body ar c ^^ j) s)"
    proof (intro allI impI)
      fix j
      assume "j < Suc k"
      show "loop_cond ar maxIterations ((loop_body ar c ^^ j) s)"
      proof (cases j)
        case 0
        with True show ?thesis by simp
      next
        case (Suc i)
        with \<open>j < Suc k\<close> before show ?thesis
          by (simp add: funpow_swap1)
      qed
    qed
    ultimately show ?thesis
      by blast
  qed
qed

lemma mandelbrot_run:
  assumes "0 \<le> maxIterations"
  shows "\<exists>k. k \<le> nat maxIterations
     \<and> mandelbrot_loop ar maxIterations c (initial_state ar) = after_passes ar c k
     \<and> \<not> loop_cond ar maxIterations (after_passes ar c k)
     \<and> (\<forall>j<k. loop_cond ar maxIterations (after_passes ar c j))
     \<and> mandelbrot ar maxIterations c = int k"
proof -
  from loop_run [of maxIterations "initial_state ar" ar c] obtain k where
    k: "int k \<le> max 0 (maxIterations - iterations (initial_state ar))"
      "mandelbrot_loop ar maxIterations c (initial_state ar) = after_passes ar c k"
      "\<not> loop_cond ar maxIterations (after_passes ar c k)"
      "\<forall>j<k. loop_cond ar maxIterations (after_passes ar c j)"
    unfolding after_passes_def by blast
  have "k \<le> nat maxIterations"
    using k(1) assms by (simp add: initial_state_def)
  moreover have "mandelbrot ar maxIterations c = int k"
    by (simp add: mandelbrot_def k(2) iterations_after_passes)
  ultimately show ?thesis
    using k by blast
qed

subsection \<open>Exact arithmetic\<close>

lemma exact_arith_simps:
  "d_of_int exact_arith = of_int" "d_add exact_arith = (+)" "d_sub exact_arith = (-)"
  "d_mul exact_arith = (*)" "d_div exact_arith = (/)" "d_less exact_arith = (<)"
  "z_make exact_arith = Complex" "z_add exact_arith = (+)" "z_mul exact_arith = (*)"
  "z_abs exact_arith = cmod"
  by (simp_all add: exact_arith_def)

lemma z_zero_exact: "z_zero exact_arith = 0"
  by (simp add: z_zero_def exact_arith_simps complex_eq_iff)

lemma abs_below_two_exact: "abs_below_two exact_arith w \<longleftrightarrow> cmod w < 2"
  by (simp add: abs_below_two_def exact_arith_simps)

lemma loop_body_exact:
  "loop_body exact_arith c s = \<lparr>z = z s * z s + c, iterations = iterations s + 1\<rparr>"
  by (simp add: loop_body_def exact_arith_simps)

lemma cmod_less_2_iff: "cmod w < 2 \<longleftrightarrow> (Re w)\<^sup>2 + (Im w)\<^sup>2 < 4"
proof -
  have "cmod w < 2 \<longleftrightarrow> sqrt ((Re w)\<^sup>2 + (Im w)\<^sup>2) < sqrt 4"
    by (simp add: cmod_def)
  then show ?thesis
    by (simp only: real_sqrt_less_iff)
qed

lemma cmod_greater_2_iff: "2 < cmod w \<longleftrightarrow> 4 < (Re w)\<^sup>2 + (Im w)\<^sup>2"
proof -
  have "2 < cmod w \<longleftrightarrow> sqrt 4 < sqrt ((Re w)\<^sup>2 + (Im w)\<^sup>2)"
    by (simp add: cmod_def)
  then show ?thesis
    by (simp only: real_sqrt_less_iff)
qed

lemma loop_cond_exact:
  "loop_cond exact_arith n s \<longleftrightarrow> (Re (z s))\<^sup>2 + (Im (z s))\<^sup>2 < 4 \<and> iterations s < n"
  by (simp add: loop_cond_def abs_below_two_exact cmod_less_2_iff)

lemmas exact_eval =
  mandelbrot_def initial_state_def z_zero_exact mandelbrot_loop.simps [of exact_arith]
  loop_cond_exact loop_body_exact after_passes_def

text \<open>
  Claim C10: for every point \<open>c\<close> and every \<open>maxIterations \<ge> 0\<close> the loop of
  \<open>mandelbrot\<close> terminates: it returns the state reached after some number \<open>k\<close> of
  passes of its body, \<open>k\<close> is at most \<open>maxIterations\<close>, the loop test holds before
  each of the \<open>k\<close> passes and fails after the last, and every pass increases the
  counter by exactly one. It holds in every arithmetic.
\<close>

theorem mandelbrot_loop_terminates:
  assumes "0 \<le> maxIterations"
  shows "\<exists>k. k \<le> nat maxIterations
     \<and> mandelbrot_loop ar maxIterations c (initial_state ar) = after_passes ar c k
     \<and> \<not> loop_cond ar maxIterations (after_passes ar c k)
     \<and> (\<forall>j<k. loop_cond ar maxIterations (after_passes ar c j))
     \<and> (\<forall>s. iterations (loop_body ar c s) = iterations s + 1)"
proof -
  have "\<forall>s. iterations (loop_body ar c s) = iterations s + 1"
    by (simp add: loop_body_def)
  with mandelbrot_run [OF assms, of ar c] show ?thesis
    by blast
qed

theorem mandelbrot_loop_terminates_witness:
  "(0::int) \<le> 3
   \<and> mandelbrot_loop exact_arith 3 (Complex 1 1) (initial_state exact_arith)
       = \<lparr>z = Complex 1 3, iterations = 2\<rparr>
   \<and> (\<exists>k. k \<le> nat 3
        \<and> mandelbrot_loop exact_arith 3 (Complex 1 1) (initial_state exact_arith)
            = after_passes exact_arith (Complex 1 1) k
        \<and> \<not> loop_cond exact_arith 3 (after_passes exact_arith (Complex 1 1) k)
        \<and> (\<forall>j<k. loop_cond exact_arith 3 (after_passes exact_arith (Complex 1 1) j))
        \<and> (\<forall>s. iterations (loop_body exact_arith (Complex 1 1) s) = iterations s + 1))"
proof -
  have "mandelbrot_loop exact_arith 3 (Complex 1 1) (initial_state exact_arith)
       = \<lparr>z = Complex 1 3, iterations = 2\<rparr>"
    by (simp add: exact_eval complex_eq_iff power2_eq_square)
  then show ?thesis
    using mandelbrot_loop_terminates [of 3 exact_arith "Complex 1 1"] by simp
qed

text \<open>
  Claim C3, as the code has it: for every point \<open>c\<close> and every \<open>maxIterations \<ge> 0\<close>
  the result lies in \<open>[0, maxIterations]\<close>; the loop test \<open>|z| < 2\<close> holds for every
  \<open>z\<close> before the step of the result; and if the result is strictly less than
  \<open>maxIterations\<close>, the test fails at exactly that step (\<open>|z| \<ge> 2\<close> in exact
  arithmetic: 2 is reached or exceeded). Nothing is said of the \<open>z\<close> of the last
  step when the result equals \<open>maxIterations\<close>. It holds in every arithmetic.
\<close>

theorem mandelbrot_postcondition:
  assumes "0 \<le> maxIterations"
  shows "0 \<le> mandelbrot ar maxIterations c
       \<and> mandelbrot ar maxIterations c \<le> maxIterations
       \<and> (\<forall>j < nat (mandelbrot ar maxIterations c).
            abs_below_two ar (z (after_passes ar c j)))
       \<and> (mandelbrot ar maxIterations c < maxIterations
            \<longrightarrow> \<not> abs_below_two ar
                  (z (after_passes ar c (nat (mandelbrot ar maxIterations c)))))"
proof -
  from mandelbrot_run [OF assms, of ar c] obtain k where
    k: "k \<le> nat maxIterations"
      "\<not> loop_cond ar maxIterations (after_passes ar c k)"
      "\<forall>j<k. loop_cond ar maxIterations (after_passes ar c j)"
      "mandelbrot ar maxIterations c = int k"
    by blast
  have "0 \<le> mandelbrot ar maxIterations c" "mandelbrot ar maxIterations c \<le> maxIterations"
    using k(1,4) assms by simp_all
  moreover have "\<forall>j < nat (mandelbrot ar maxIterations c).
      abs_below_two ar (z (after_passes ar c j))"
    using k(3,4) by (simp add: loop_cond_def)
  moreover have "mandelbrot ar maxIterations c < maxIterations
      \<longrightarrow> \<not> abs_below_two ar (z (after_passes ar c (nat (mandelbrot ar maxIterations c))))"
    using k(2,4) by (auto simp add: loop_cond_def iterations_after_passes)
  ultimately show ?thesis
    by blast
qed

theorem mandelbrot_postcondition_witness:
  "(0::int) \<le> 3
   \<and> mandelbrot exact_arith 3 (Complex 1 1) = 2
   \<and> mandelbrot exact_arith 3 (Complex 1 1) \<le> 3
   \<and> abs_below_two exact_arith (z (after_passes exact_arith (Complex 1 1) 0))
   \<and> abs_below_two exact_arith (z (after_passes exact_arith (Complex 1 1) 1))
   \<and> \<not> abs_below_two exact_arith (z (after_passes exact_arith (Complex 1 1) 2))"
proof -
  have result: "mandelbrot exact_arith 3 (Complex 1 1) = 2"
    by (simp add: exact_eval complex_eq_iff power2_eq_square)
  have post:
    "(\<forall>j<2. abs_below_two exact_arith (z (after_passes exact_arith (Complex 1 1) j)))
     \<and> \<not> abs_below_two exact_arith (z (after_passes exact_arith (Complex 1 1) 2))"
    using mandelbrot_postcondition [of 3 exact_arith "Complex 1 1"]
    by (simp add: result)
  then have "abs_below_two exact_arith (z (after_passes exact_arith (Complex 1 1) 0))"
    and "abs_below_two exact_arith (z (after_passes exact_arith (Complex 1 1) 1))"
    by simp_all
  with post result show ?thesis
    by simp
qed

text \<open>
  Claim C3, as the specification words it, fails on the code in its second and third
  parts. With \<open>c = 3\<close> and \<open>maxIterations = 1\<close> the result equals \<open>maxIterations\<close>
  although \<open>|z| = 3\<close> after the one pass of the budget. With \<open>c = 2\<close> and
  \<open>maxIterations = 2\<close> the result 1 is below \<open>maxIterations\<close> although \<open>|z| = 2\<close> at
  that step, which does not exceed 2.
\<close>

theorem mandelbrot_postcondition_counterexample:
  "mandelbrot exact_arith 1 (Complex 3 0) = 1
   \<and> 2 < cmod (z (after_passes exact_arith (Complex 3 0) 1))
   \<and> mandelbrot exact_arith 2 (Complex 2 0) = 1
   \<and> (1::int) < 2
   \<and> \<not> 2 < cmod (z (after_passes exact_arith (Complex 2 0) 1))"
  by (simp add: exact_eval cmod_def)

subsection \<open>Points that never move and points that leave at once\<close>

lemma after_passes_fixed:
  assumes "z_add ar (z_mul ar (z_zero ar) (z_zero ar)) (z_zero ar) = z_zero ar"
  shows "z (after_passes ar (z_zero ar) k) = z_zero ar"
  using assms by (induction k) (simp_all add: after_passes_def initial_state_def loop_body_def)

text \<open>
  In every arithmetic in which \<open>|0| < 2\<close> and \<open>0 * 0 + 0 = 0\<close> (as in IEEE 754
  arithmetic), the origin uses the whole budget.
\<close>

lemma mandelbrot_fixed_point:
  assumes "abs_below_two ar (z_zero ar)"
    and "z_add ar (z_mul ar (z_zero ar) (z_zero ar)) (z_zero ar) = z_zero ar"
    and "0 \<le> maxIterations"
  shows "mandelbrot ar maxIterations (z_zero ar) = maxIterations"
proof -
  from mandelbrot_run [OF assms(3), of ar "z_zero ar"] obtain k where
    k: "k \<le> nat maxIterations"
      "\<not> loop_cond ar maxIterations (after_passes ar (z_zero ar) k)"
      "mandelbrot ar maxIterations (z_zero ar) = int k"
    by blast
  have "\<not> int k < maxIterations"
    using k(2) assms(1) after_passes_fixed [OF assms(2), of k]
    by (simp add: loop_cond_def iterations_after_passes)
  then show ?thesis
    using k(1,3) assms(3) by simp
qed

text \<open>
  In every arithmetic in which \<open>|0| < 2\<close>, a point \<open>c\<close> whose first iterate
  \<open>0 * 0 + c\<close> fails the loop test makes exactly one pass, whatever the budget
  \<open>maxIterations \<ge> 1\<close>.
\<close>

lemma mandelbrot_first_pass_escape:
  assumes "abs_below_two ar (z_zero ar)"
    and "\<not> abs_below_two ar (z_add ar (z_mul ar (z_zero ar) (z_zero ar)) c)"
    and "1 \<le> maxIterations"
  shows "mandelbrot ar maxIterations c = 1"
proof -
  have "loop_cond ar maxIterations (initial_state ar)"
    using assms(1,3) by (simp add: loop_cond_def initial_state_def)
  moreover have "\<not> loop_cond ar maxIterations (loop_body ar c (initial_state ar))"
    using assms(2) by (simp add: loop_cond_def loop_body_def initial_state_def)
  ultimately have "mandelbrot_loop ar maxIterations c (initial_state ar)
      = loop_body ar c (initial_state ar)"
    by (simp add: mandelbrot_loop.simps [of ar maxIterations c])
  then show ?thesis
    by (simp add: mandelbrot_def loop_body_def initial_state_def)
qed

lemma mandelbrot_no_pass:
  assumes "maxIterations \<le> 0"
  shows "mandelbrot ar maxIterations c = 0"
proof -
  have "\<not> loop_cond ar maxIterations (initial_state ar)"
    using assms by (simp add: loop_cond_def initial_state_def)
  then show ?thesis
    by (simp add: mandelbrot_def mandelbrot_loop.simps [of ar maxIterations c] initial_state_def)
qed

text \<open>
  Claim C5: for every \<open>maxIterations \<ge> 0\<close>, \<open>mandelbrot\<close> applied to the origin
  \<open>0 + 0i\<close> returns exactly \<open>maxIterations\<close>.
\<close>

theorem mandelbrot_origin:
  assumes "0 \<le> maxIterations"
  shows "mandelbrot exact_arith maxIterations (Complex 0 0) = maxIterations"
proof -
  have origin: "Complex 0 0 = z_zero exact_arith"
    by (simp add: z_zero_exact complex_eq_iff)
  show ?thesis
    unfolding origin
    by (rule mandelbrot_fixed_point)
      (simp_all add: assms abs_below_two_exact z_zero_exact exact_arith_simps)
qed

theorem mandelbrot_origin_witness:
  "(0::int) \<le> MAX_ITERATIONS
   \<and> mandelbrot exact_arith MAX_ITERATIONS (Complex 0 0) = 100"
  using mandelbrot_origin [of MAX_ITERATIONS] by (simp add: MAX_ITERATIONS_def)

text \<open>
  Claim C2, as the code has it: for every point \<open>c\<close> with \<open>|c| > 2\<close> and every
  \<open>maxIterations \<ge> 2\<close>, \<open>mandelbrot\<close> returns 1, which is strictly less than
  \<open>maxIterations\<close>.
\<close>

theorem mandelbrot_outside_radius:
  assumes "2 < cmod c" and "2 \<le> maxIterations"
  shows "mandelbrot exact_arith maxIterations c = 1
       \<and> mandelbrot exact_arith maxIterations c < maxIterations"
proof -
  have "mandelbrot exact_arith maxIterations c = 1"
    using assms
    by (intro mandelbrot_first_pass_escape)
      (simp_all add: abs_below_two_exact z_zero_exact exact_arith_simps)
  with assms(2) show ?thesis
    by simp
qed

theorem mandelbrot_outside_radius_witness:
  "2 < cmod (Complex (- 2) (- 3 / 2)) \<and> 2 \<le> MAX_ITERATIONS
   \<and> mandelbrot exact_arith MAX_ITERATIONS (Complex (- 2) (- 3 / 2)) = 1
   \<and> mandelbrot exact_arith MAX_ITERATIONS (Complex (- 2) (- 3 / 2)) < MAX_ITERATIONS"
proof -
  have "2 < cmod (Complex (- 2) (- 3 / 2))"
    by (simp add: cmod_greater_2_iff power2_eq_square)
  moreover have "2 \<le> MAX_ITERATIONS"
    by (simp add: MAX_ITERATIONS_def)
  ultimately show ?thesis
    using mandelbrot_outside_radius [of "Complex (- 2) (- 3 / 2)" MAX_ITERATIONS]
    by simp
qed

text \<open>
  Claim C2, as the specification words it (every \<open>maxIterations \<ge> 1\<close>), fails on the
  code: with \<open>c = 3\<close> and \<open>maxIterations = 1\<close> the one pass of the budget is made
  before \<open>|z|\<close> is tested again, and the result 1 is not below \<open>maxIterations\<close>.
\<close>

theorem mandelbrot_outside_radius_counterexample:
  "2 < cmod (Complex 3 0) \<and> (1::int) \<le> 1
   \<and> mandelbrot exact_arith 1 (Complex 3 0) = 1
   \<and> \<not> mandelbrot exact_arith 1 (Complex 3 0) < 1"
  by (simp add: exact_eval cmod_def)

section \<open>Properties of the pixel mapping\<close>

lemmas main_viewport_eval =
  main_viewport_def WIDTH_def HEIGHT_def RE_START_def RE_END_def IM_START_def IM_END_def

text \<open>
  In every arithmetic, the pixel \<open>(0, 0)\<close> is mapped to \<open>(reStart, imStart)\<close> when
  \<open>0 / width\<close> and \<open>0 / height\<close> are 0, 0 times each span is 0, and adding 0 changes
  neither start. (IEEE 754 arithmetic has it so for a width and a height that are not
  zero and finite starts and spans; a span that overflows to infinity makes the
  product a NaN.)
\<close>

lemma mapPixelToPoint_origin:
  assumes "d_div ar (d_of_int ar 0) (d_of_int ar (width vp)) = d_of_int ar 0"
    and "d_div ar (d_of_int ar 0) (d_of_int ar (height vp)) = d_of_int ar 0"
    and "d_mul ar (d_of_int ar 0) (d_sub ar (reEnd vp) (reStart vp)) = d_of_int ar 0"
    and "d_mul ar (d_of_int ar 0) (d_sub ar (imEnd vp) (imStart vp)) = d_of_int ar 0"
    and "d_add ar (reStart vp) (d_of_int ar 0) = reStart vp"
    and "d_add ar (imStart vp) (d_of_int ar 0) = imStart vp"
  shows "mapPixelToPoint ar 0 0 vp = z_make ar (reStart vp) (imStart vp)"
  by (simp add: mapPixelToPoint_def assms)

text \<open>
  Claim C6, for every arithmetic: for every pixel \<open>(x, y)\<close>, in particular for
  \<open>0 \<le> x < width\<close> and \<open>0 \<le> y < height\<close>, \<open>mapPixelToPoint\<close> computes
  \<open>re = reStart + (x / width) * (reEnd - reStart)\<close> and
  \<open>im = imStart + (y / height) * (imEnd - imStart)\<close> with the operations of the
  arithmetic, in this grouping, the division being that of two \<open>double\<close> values
  (\<open>x\<close> and \<open>width\<close> are converted first); and the pixel \<open>(0, 0)\<close> is mapped to
  \<open>(reStart, imStart)\<close> exactly, in an arithmetic and for a viewport in which
  \<open>0 / width\<close> and \<open>0 / height\<close> are 0, 0 times each span is 0, and adding 0 changes
  neither start.
\<close>

theorem mapPixelToPoint_interpolation:
  "mapPixelToPoint ar x y vp =
     z_make ar
       (d_add ar (reStart vp)
          (d_mul ar (d_div ar (d_of_int ar x) (d_of_int ar (width vp)))
             (d_sub ar (reEnd vp) (reStart vp))))
       (d_add ar (imStart vp)
          (d_mul ar (d_div ar (d_of_int ar y) (d_of_int ar (height vp)))
             (d_sub ar (imEnd vp) (imStart vp))))
   \<and> (d_div ar (d_of_int ar 0) (d_of_int ar (width vp)) = d_of_int ar 0
        \<and> d_div ar (d_of_int ar 0) (d_of_int ar (height vp)) = d_of_int ar 0
        \<and> d_mul ar (d_of_int ar 0) (d_sub ar (reEnd vp) (reStart vp)) = d_of_int ar 0
        \<and> d_mul ar (d_of_int ar 0) (d_sub ar (imEnd vp) (imStart vp)) = d_of_int ar 0
        \<and> d_add ar (reStart vp) (d_of_int ar 0) = reStart vp
        \<and> d_add ar (imStart vp) (d_of_int ar 0) = imStart vp
      \<longrightarrow> mapPixelToPoint ar 0 0 vp = z_make ar (reStart vp) (imStart vp))"
proof (intro conjI impI)
  show "mapPixelToPoint ar x y vp =
     z_make ar
       (d_add ar (reStart vp)
          (d_mul ar (d_div ar (d_of_int ar x) (d_of_int ar (width vp)))
             (d_sub ar (reEnd vp) (reStart vp))))
       (d_add ar (imStart vp)
          (d_mul ar (d_div ar (d_of_int ar y) (d_of_int ar (height vp)))
             (d_sub ar (imEnd vp) (imStart vp))))"
    by (simp add: mapPixelToPoint_def)
next
  assume "d_div ar (d_of_int ar 0) (d_of_int ar (width vp)) = d_of_int ar 0
        \<and> d_div ar (d_of_int ar 0) (d_of_int ar (height vp)) = d_of_int ar 0
        \<and> d_mul ar (d_of_int ar 0) (d_sub ar (reEnd vp) (reStart vp)) = d_of_int ar 0
        \<and> d_mul ar (d_of_int ar 0) (d_sub ar (imEnd vp) (imStart vp)) = d_of_int ar 0
        \<and> d_add ar (reStart vp) (d_of_int ar 0) = reStart vp
        \<and> d_add ar (imStart vp) (d_of_int ar 0) = imStart vp"
  then show "mapPixelToPoint ar 0 0 vp = z_make ar (reStart vp) (imStart vp)"
    by (intro mapPixelToPoint_origin) simp_all
qed

text \<open>
  The witness is the grid of the source in exact arithmetic, at the pixels
  \<open>(200, 600)\<close> and \<open>(0, 0)\<close>: \<open>200 / 800\<close>, \<open>600 / 800\<close> and every sum and
  product on the way are multiples of \<open>1 / 4\<close>, the same in binary64. The value at
  \<open>(200, 600)\<close> is not the start corner, which a division of the two \<open>int\<close> values
  would give.
\<close>

theorem mapPixelToPoint_interpolation_witness:
  "d_div exact_arith (d_of_int exact_arith 0) (d_of_int exact_arith (width main_viewport))
     = d_of_int exact_arith 0
   \<and> d_div exact_arith (d_of_int exact_arith 0) (d_of_int exact_arith (height main_viewport))
       = d_of_int exact_arith 0
   \<and> d_mul exact_arith (d_of_int exact_arith 0)
         (d_sub exact_arith (reEnd main_viewport) (reStart main_viewport))
       = d_of_int exact_arith 0
   \<and> d_mul exact_arith (d_of_int exact_arith 0)
         (d_sub exact_arith (imEnd main_viewport) (imStart main_viewport))
       = d_of_int exact_arith 0
   \<and> d_add exact_arith (reStart main_viewport) (d_of_int exact_arith 0)
       = reStart main_viewport
   \<and> d_add exact_arith (imStart main_viewport) (d_of_int exact_arith 0)
       = imStart main_viewport
   \<and> mapPixelToPoint exact_arith 200 600 main_viewport = Complex (- 5 / 4) (3 / 4)
   \<and> mapPixelToPoint exact_arith 0 0 main_viewport
       = z_make exact_arith (reStart main_viewport) (imStart main_viewport)
   \<and> z_make exact_arith (reStart main_viewport) (imStart main_viewport)
       = Complex (- 2) (- 3 / 2)"
proof -
  have identities:
    "d_div exact_arith (d_of_int exact_arith 0) (d_of_int exact_arith (width main_viewport))
       = d_of_int exact_arith 0
     \<and> d_div exact_arith (d_of_int exact_arith 0)
           (d_of_int exact_arith (height main_viewport))
         = d_of_int exact_arith 0
     \<and> d_mul exact_arith (d_of_int exact_arith 0)
           (d_sub exact_arith (reEnd main_viewport) (reStart main_viewport))
         = d_of_int exact_arith 0
     \<and> d_mul exact_arith (d_of_int exact_arith 0)
           (d_sub exact_arith (imEnd main_viewport) (imStart main_viewport))
         = d_of_int exact_arith 0
     \<and> d_add exact_arith (reStart main_viewport) (d_of_int exact_arith 0)
         = reStart main_viewport
     \<and> d_add exact_arith (imStart main_viewport) (d_of_int exact_arith 0)
         = imStart main_viewport"
    by (simp add: exact_arith_simps)
  note claim = mapPixelToPoint_interpolation [of exact_arith 200 600 main_viewport]
  from claim identities
  have origin: "mapPixelToPoint exact_arith 0 0 main_viewport
      = z_make exact_arith (reStart main_viewport) (imStart main_viewport)"
    by blast
  from claim
  have "mapPixelToPoint exact_arith 200 600 main_viewport = Complex (- 5 / 4) (3 / 4)"
    by (simp add: exact_arith_simps main_viewport_eval)
  moreover have "z_make exact_arith (reStart main_viewport) (imStart main_viewport)
      = Complex (- 2) (- 3 / 2)"
    by (simp add: exact_arith_simps main_viewport_eval)
  ultimately show ?thesis
    using identities origin by blast
qed

section \<open>A budget that is not positive\<close>

text \<open>
  Claim C4, as the code has it, for the one kind of invalid configuration that
  \<open>mandelbrot\<close> decides by itself: with a budget that is not positive the kernel does
  produce an iteration count. For every \<open>maxIterations \<le> 0\<close> and every point, in
  every arithmetic, the loop makes no pass (it returns its initial state) and
  \<open>mandelbrot\<close> returns 0, which for \<open>maxIterations < 0\<close> lies outside
  \<open>[0, maxIterations]\<close>.
\<close>

theorem mandelbrot_nonpositive_budget:
  assumes "maxIterations \<le> 0"
  shows "mandelbrot_loop ar maxIterations c (initial_state ar) = initial_state ar
       \<and> mandelbrot ar maxIterations c = 0
       \<and> (maxIterations < 0 \<longrightarrow> maxIterations < mandelbrot ar maxIterations c)"
proof -
  have "\<not> loop_cond ar maxIterations (initial_state ar)"
    using assms by (simp add: loop_cond_def initial_state_def)
  then have "mandelbrot_loop ar maxIterations c (initial_state ar) = initial_state ar"
    by (simp add: mandelbrot_loop.simps [of ar maxIterations c])
  then show ?thesis
    by (simp add: mandelbrot_no_pass [OF assms])
qed

theorem mandelbrot_nonpositive_budget_witness:
  "(- 5::int) \<le> 0
   \<and> mandelbrot_loop exact_arith (- 5) (Complex 3 4) (initial_state exact_arith)
       = initial_state exact_arith
   \<and> mandelbrot exact_arith (- 5) (Complex 3 4) = 0
   \<and> (- 5::int) < 0
   \<and> - 5 < mandelbrot exact_arith (- 5) (Complex 3 4)"
  using mandelbrot_nonpositive_budget [of "- 5" exact_arith "Complex 3 4"]
  by simp

text \<open>
  Claim C4, as the specification words it, fails on the code: the budget \<open>-1\<close> is not
  positive and is not rejected. \<open>mandelbrot\<close> returns the iteration count 0 for it,
  a count above the budget. (\<open>MAX_ITERATIONS\<close> is one of the constants that the
  closing comment of the source, lines 128 and 129, invites its reader to change.)
\<close>

theorem mandelbrot_nonpositive_budget_counterexample:
  "\<not> (0::int) < - 1
   \<and> mandelbrot exact_arith (- 1) (Complex 0 0) = 0
   \<and> \<not> mandelbrot exact_arith (- 1) (Complex 0 0) \<le> - 1"
  by (simp add: exact_eval)

end
